theory Spec2Isabelle
  imports Complex_Main
begin

section \<open>Backup recovery (src/config/recovery.ts)\<close>

text \<open>
  A JavaScript string is the \<open>string\<close> of the UTF-8 bytes of its text: concatenation and
  equality are those of the text, and an ASCII text has one byte for each character.

  A thrown JavaScript exception (or a rejected promise) is a value of \<open>js_error\<close>; a
  computation that may throw returns \<open>js_error + 'a\<close>, with \<open>Inl\<close> for the throw.
  An effectful call takes the state of the world and returns the new one with its result.
\<close>

datatype js_error = JsError string

type_synonym ('s, 'a) io = "'s \<Rightarrow> (js_error + 'a) \<times> 's"

definition try_catch :: "('s, 'a) io \<Rightarrow> (js_error \<Rightarrow> ('s, 'a) io) \<Rightarrow> ('s, 'a) io" where
  "try_catch body handler s =
     (case body s of (Inl e, s1) \<Rightarrow> handler e s1 | (Inr a, s1) \<Rightarrow> (Inr a, s1))"

record BackupCandidate =
  path :: string
  label :: string

record 'c RecoveryCandidate = BackupCandidate +
  config :: 'c

datatype 'c RecoveryResult =
    Recovered "'c RecoveryCandidate" nat
  | NotRecovered nat string

record ConfigIssue =
  issue_path :: string
  issue_message :: string

text \<open>The result of \<open>validateConfigObjectRaw\<close>: \<open>{ok: true, config}\<close> or \<open>{ok: false, issues}\<close>.\<close>

datatype 'c ValidationResult = ValidationOk 'c | ValidationFailed "ConfigIssue list"

text \<open>
  The collaborators of the recovery engine. \<open>existsSync\<close>, \<open>readFileSync\<close>, \<open>rename\<close> and
  \<open>copyFile\<close> are the injected \<open>ioFs\<close>, over a filesystem state \<open>'s\<close>; \<open>parse\<close> is the
  injected \<open>json5.parse\<close>; \<open>validateConfigObjectRaw\<close> is imported from validation.js,
  which is not modelled, and so is a parameter as well. Each of them may throw, the
  injected \<open>existsSync\<close> too (the one of Node does not); \<open>existsSync\<close> and \<open>readFileSync\<close> do
  not change the filesystem; \<open>rename\<close> and \<open>copyFile\<close> may change it and may reject, in
  whatever state they leave.
\<close>

record ('s, 'j, 'c) deps =
  existsSync :: "'s \<Rightarrow> string \<Rightarrow> js_error + bool"
  readFileSync :: "'s \<Rightarrow> string \<Rightarrow> js_error + string"
  rename :: "string \<Rightarrow> string \<Rightarrow> ('s, unit) io"
  copyFile :: "string \<Rightarrow> string \<Rightarrow> ('s, unit) io"
  parse :: "string \<Rightarrow> js_error + 'j"
  validateConfigObjectRaw :: "'j \<Rightarrow> js_error + 'c ValidationResult"

text \<open>Decimal rendering of a loop index inside a template string.\<close>

fun string_of_nat :: "nat \<Rightarrow> string" where
  "string_of_nat n =
     (if n < 10 then [''0123456789'' ! n]
      else string_of_nat (n div 10) @ [''0123456789'' ! (n mod 10)])"

declare string_of_nat.simps [simp del]

text \<open>
  \<open>buildBackupCandidates\<close>; the constant \<open>CONFIG_BACKUP_COUNT\<close> of backup-rotation.js is
  the first argument.
\<close>

definition buildBackupCandidates :: "nat \<Rightarrow> string \<Rightarrow> BackupCandidate list" where
  "buildBackupCandidates CONFIG_BACKUP_COUNT configPath =
     \<lparr>path = configPath @ ''.bak'', label = ''.bak (most recent)''\<rparr> #
     map (\<lambda>i. \<lparr>path = configPath @ ''.bak.'' @ string_of_nat i,
               label = ''.bak.'' @ string_of_nat i\<rparr>)
         [1..<CONFIG_BACKUP_COUNT]"

text \<open>Read, parse and validate one backup: the three statements that open both try blocks.\<close>

definition loadCandidate ::
  "('s, 'j, 'c) deps \<Rightarrow> 's \<Rightarrow> BackupCandidate \<Rightarrow> js_error + 'c ValidationResult" where
  "loadCandidate d s candidate =
     (case readFileSync d s (path candidate) of
        Inl e \<Rightarrow> Inl e
      | Inr raw \<Rightarrow>
          (case parse d raw of
             Inl e \<Rightarrow> Inl e
           | Inr parsed \<Rightarrow> validateConfigObjectRaw d parsed))"

definition withConfig :: "BackupCandidate \<Rightarrow> 'c \<Rightarrow> 'c RecoveryCandidate" where
  "withConfig candidate cfg = \<lparr>path = path candidate, label = label candidate, config = cfg\<rparr>"

text \<open>
  The loop of \<open>findValidBackup\<close>. The call of \<open>existsSync\<close> stands before the try block:
  what it throws leaves the function. \<open>Inr None\<close> is the result \<open>null\<close>.
\<close>

fun findValidBackup_loop ::
  "('s, 'j, 'c) deps \<Rightarrow> 's \<Rightarrow> BackupCandidate list
     \<Rightarrow> js_error + 'c RecoveryCandidate option" where
  "findValidBackup_loop d s [] = Inr None"
| "findValidBackup_loop d s (candidate # rest) =
     (case existsSync d s (path candidate) of
        Inl e \<Rightarrow> Inl e
      | Inr found \<Rightarrow>
          if \<not> found then findValidBackup_loop d s rest
          else
            (case loadCandidate d s candidate of
               Inr (ValidationOk cfg) \<Rightarrow> Inr (Some (withConfig candidate cfg))
             | Inr (ValidationFailed problems) \<Rightarrow> findValidBackup_loop d s rest
             | Inl e \<Rightarrow> findValidBackup_loop d s rest))"

definition findValidBackup ::
  "nat \<Rightarrow> string \<Rightarrow> ('s, 'j, 'c) deps \<Rightarrow> 's \<Rightarrow> js_error + 'c RecoveryCandidate option" where
  "findValidBackup CONFIG_BACKUP_COUNT configPath d s =
     findValidBackup_loop d s (buildBackupCandidates CONFIG_BACKUP_COUNT configPath)"

text \<open>
  Lines 77 to 86: move the corrupted primary file aside (by rename, or else by copy), then
  copy the backup over the primary path. A throw of \<open>existsSync\<close>, of the fallback copy or
  of the final copy leaves this block.
\<close>

definition moveCorruptedAside :: "('s, 'j, 'c) deps \<Rightarrow> string \<Rightarrow> ('s, unit) io" where
  "moveCorruptedAside d configPath s =
     (case existsSync d s configPath of
        Inl e \<Rightarrow> (Inl e, s)
      | Inr found \<Rightarrow>
          if found then
            try_catch (rename d configPath (configPath @ ''.corrupted''))
                      (\<lambda>e. copyFile d configPath (configPath @ ''.corrupted'')) s
          else (Inr (), s))"

definition restoreFromCandidate ::
  "('s, 'j, 'c) deps \<Rightarrow> string \<Rightarrow> string \<Rightarrow> ('s, unit) io" where
  "restoreFromCandidate d configPath candidatePath s =
     (case moveCorruptedAside d configPath s of
        (Inl e, s1) \<Rightarrow> (Inl e, s1)
      | (Inr u, s1) \<Rightarrow> copyFile d candidatePath configPath s1)"

text \<open>
  The body of the try block of \<open>tryRecoverConfigFromBackup\<close> for one existing candidate:
  \<open>Continue\<close> is the \<open>continue\<close> statement, \<open>Return\<close> the \<open>return\<close> of the success variant.
\<close>

datatype 'c loop_step = Continue | Return "'c RecoveryResult"

definition restoreAttempt ::
  "('s, 'j, 'c) deps \<Rightarrow> string \<Rightarrow> BackupCandidate \<Rightarrow> nat \<Rightarrow> ('s, 'c loop_step) io" where
  "restoreAttempt d configPath candidate backupsChecked s =
     (case loadCandidate d s candidate of
        Inl e \<Rightarrow> (Inl e, s)
      | Inr (ValidationFailed problems) \<Rightarrow> (Inr Continue, s)
      | Inr (ValidationOk cfg) \<Rightarrow>
          (case restoreFromCandidate d configPath (path candidate) s of
             (Inl e, s1) \<Rightarrow> (Inl e, s1)
           | (Inr u, s1) \<Rightarrow>
               (Inr (Return (Recovered (withConfig candidate cfg) backupsChecked)), s1)))"

text \<open>
  The loop of \<open>tryRecoverConfigFromBackup\<close>. The call of \<open>existsSync\<close> on line 65 stands
  before the try block: what it throws rejects the promise. The catch clause swallows
  whatever the try block threw and goes on with the next candidate.
\<close>

fun recoverLoop ::
  "('s, 'j, 'c) deps \<Rightarrow> string \<Rightarrow> BackupCandidate list \<Rightarrow> nat \<Rightarrow> ('s, 'c RecoveryResult) io" where
  "recoverLoop d configPath [] backupsChecked s =
     (Inr (NotRecovered backupsChecked
             (if backupsChecked = 0 then ''no backup files found''
              else ''all backup files are invalid or unreadable'')), s)"
| "recoverLoop d configPath (candidate # rest) backupsChecked s =
     (case existsSync d s (path candidate) of
        Inl e \<Rightarrow> (Inl e, s)
      | Inr found \<Rightarrow>
          if \<not> found then recoverLoop d configPath rest backupsChecked s
          else
            (case try_catch (restoreAttempt d configPath candidate (backupsChecked + 1))
                            (\<lambda>e s1. (Inr Continue, s1)) s of
               (Inl e, s1) \<Rightarrow> (Inl e, s1)
             | (Inr (Return result), s1) \<Rightarrow> (Inr result, s1)
             | (Inr Continue, s1) \<Rightarrow> recoverLoop d configPath rest (backupsChecked + 1) s1))"

definition tryRecoverConfigFromBackup ::
  "nat \<Rightarrow> string \<Rightarrow> ('s, 'j, 'c) deps \<Rightarrow> ('s, 'c RecoveryResult) io" where
  "tryRecoverConfigFromBackup CONFIG_BACKUP_COUNT configPath d s =
     recoverLoop d configPath (buildBackupCandidates CONFIG_BACKUP_COUNT configPath) 0 s"

section \<open>Startup gate (src/cli/program/config-guard.ts)\<close>

definition ALLOWED_INVALID_COMMANDS :: "string list" where
  "ALLOWED_INVALID_COMMANDS = [''doctor'', ''logs'', ''health'', ''help'', ''status'']"

definition ALLOWED_INVALID_GATEWAY_SUBCOMMANDS :: "string list" where
  "ALLOWED_INVALID_GATEWAY_SUBCOMMANDS =
     [''status'', ''probe'', ''health'', ''discover'', ''call'', ''install'', ''uninstall'',
      ''start'', ''stop'', ''restart'']"

text \<open>\<open>Array.prototype.join\<close>.\<close>

fun join :: "string \<Rightarrow> string list \<Rightarrow> string" where
  "join sep [] = []"
| "join sep [x] = x"
| "join sep (x # y # ys) = x @ sep @ join sep (y # ys)"

record ConfigSnapshot =
  snapshot_path :: string
  exists :: bool
  valid :: bool
  issues :: "ConfigIssue list"
  legacyIssues :: "ConfigIssue list"

text \<open>\<open>issue.path || "<root>"\<close>: the empty path is falsy.\<close>

definition formatConfigIssues :: "ConfigIssue list \<Rightarrow> string list" where
  "formatConfigIssues is =
     map (\<lambda>issue. ''- '' @ (if issue_path issue \<noteq> [] then issue_path issue else ''<root>'')
                     @ '': '' @ issue_message issue) is"

text \<open>
  The members of \<open>theme\<close> that the gate passes to \<open>colorize\<close>, and the imported helpers:
  all of them come from modules that are not modelled and are parameters. The filesystem and the
  rest of the outside world is a state \<open>'s\<close>, on which the recovery engine's collaborators
  act as well.
\<close>

datatype theme_member = theme_muted | theme_error | theme_heading | theme_command

record ('s, 'j, 'c) gate_env =
  shouldMigrateStateFromPath :: "string list \<Rightarrow> bool"
  loadAndMaybeMigrateDoctorConfig :: "('s, unit) io"
  readConfigFileSnapshot :: "('s, ConfigSnapshot) io"
  VITEST :: bool
  isRich :: bool
  colorize :: "bool \<Rightarrow> theme_member \<Rightarrow> string \<Rightarrow> string"
  shortenHomePath :: "string \<Rightarrow> string"
  formatCliCommand :: "string \<Rightarrow> string"
  recoveryDeps :: "('s, 'j, 'c) deps"
  CONFIG_BACKUP_COUNT :: nat

text \<open>
  The state the gate works on: the two module-level variables, the calls that
  \<open>params.runtime\<close> has received (in order, oldest first), the paths that
  \<open>tryRecoverConfigFromBackup\<close> has been called with, and the outside world.
\<close>

datatype runtime_call = error_call string | exit_call int

record 's gate_state =
  didRunDoctorConfigFlow :: bool
  configSnapshotPromise :: "(js_error + ConfigSnapshot) option"
  runtime_calls :: "runtime_call list"
  recoveryCalls :: "string list"
  world :: 's

definition getConfigSnapshot ::
  "('s, 'j, 'c) gate_env \<Rightarrow> ('s gate_state, ConfigSnapshot) io" where
  "getConfigSnapshot env st =
     (if VITEST env then
        (case readConfigFileSnapshot env (world st) of (r, w) \<Rightarrow> (r, st\<lparr>world := w\<rparr>))
      else
        (case configSnapshotPromise st of
           Some r \<Rightarrow> (r, st)
         | None \<Rightarrow>
             (case readConfigFileSnapshot env (world st) of
                (r, w) \<Rightarrow> (r, st\<lparr>configSnapshotPromise := Some r, world := w\<rparr>))))"

text \<open>Lines 45 to 51: the one-time migration flow.\<close>

definition runDoctorConfigFlowOnce ::
  "('s, 'j, 'c) gate_env \<Rightarrow> string list \<Rightarrow> ('s gate_state, unit) io" where
  "runDoctorConfigFlowOnce env commandPath st =
     (if \<not> didRunDoctorConfigFlow st \<and> shouldMigrateStateFromPath env commandPath then
        (case loadAndMaybeMigrateDoctorConfig env (world st) of
           (r, w) \<Rightarrow> (r, st\<lparr>didRunDoctorConfigFlow := True, world := w\<rparr>))
      else (Inr (), st))"

text \<open>
  Lines 54 to 61. \<open>commandPath[0]\<close> and \<open>commandPath[1]\<close> are \<open>undefined\<close> past the end
  of the array, and \<open>undefined\<close> and the empty string are falsy.
\<close>

definition allowInvalid :: "string list \<Rightarrow> bool" where
  "allowInvalid commandPath =
     (case commandPath of
        [] \<Rightarrow> False
      | commandName # rest \<Rightarrow>
          commandName \<noteq> [] \<and>
          (commandName \<in> set ALLOWED_INVALID_COMMANDS \<or>
           (commandName = ''gateway'' \<and>
            (case rest of
               [] \<Rightarrow> False
             | subcommandName # rest' \<Rightarrow>
                 subcommandName \<noteq> [] \<and>
                 subcommandName \<in> set ALLOWED_INVALID_GATEWAY_SUBCOMMANDS))))"

text \<open>Lines 76 to 91: what \<open>runtime.error\<close> receives after a successful recovery.\<close>

definition restoredDiagnostics ::
  "('s, 'j, 'c) gate_env \<Rightarrow> ConfigSnapshot \<Rightarrow> 'c RecoveryCandidate \<Rightarrow> string list" where
  "restoredDiagnostics env snapshot candidate =
     (let rich = isRich env;
          muted = colorize env rich theme_muted;
          heading = colorize env rich theme_heading;
          commandText = colorize env rich theme_command
      in [heading (''Config was invalid ''
                   @ [CHR 0xC3, CHR 0xA2, CHR 0xE2, CHR 0x82, CHR 0xAC, CHR 0xE2, CHR 0x80, CHR 0x9D]
                   @ '' automatically restored from backup''),
          muted ''Restored from:'' @ '' '' @ muted (label candidate),
          muted ''The corrupted config was saved to:'' @ '' ''
            @ muted (shortenHomePath env (snapshot_path snapshot @ ''.corrupted'')),
          muted ''Run'' @ '' '' @ commandText (formatCliCommand env ''openclaw doctor --fix'')
            @ '' '' @ muted ''to review.''])"

text \<open>Lines 97 to 123: what \<open>runtime.error\<close> receives when recovery failed.\<close>

definition invalidDiagnostics ::
  "('s, 'j, 'c) gate_env \<Rightarrow> ConfigSnapshot \<Rightarrow> nat \<Rightarrow> string list" where
  "invalidDiagnostics env snapshot backupsChecked =
     (let rich = isRich env;
          muted = colorize env rich theme_muted;
          error = colorize env rich theme_error;
          heading = colorize env rich theme_heading;
          commandText = colorize env rich theme_command;
          issueLines = (if exists snapshot \<and> \<not> valid snapshot
                    then formatConfigIssues (issues snapshot) else []);
          legacyIssueLines = map (\<lambda>issue. ''- '' @ issue_path issue @ '': '' @ issue_message issue)
                             (legacyIssues snapshot)
      in [heading ''Config invalid'',
          muted ''File:'' @ '' '' @ muted (shortenHomePath env (snapshot_path snapshot))]
         @ (if length issueLines > 0
            then [muted ''Problem:'',
                  join [CHR 0x0A] (map (\<lambda>issue. ''  '' @ error issue) issueLines)]
            else [])
         @ (if length legacyIssueLines > 0
            then [muted ''Legacy config keys detected:'',
                  join [CHR 0x0A] (map (\<lambda>issue. ''  '' @ error issue) legacyIssueLines)]
            else [])
         @ [if backupsChecked > 0
            then muted (''Checked '' @ string_of_nat backupsChecked
                        @ '' backup(s) but none were valid.'')
            else muted ''No backup files available for recovery.'',
            [],
            muted ''Run:'' @ '' '' @ commandText (formatCliCommand env ''openclaw doctor --fix'')])"

record ensureConfigReady_params =
  commandPath :: "string list option"

definition ensureConfigReady ::
  "('s, 'j, 'c) gate_env \<Rightarrow> ensureConfigReady_params \<Rightarrow> ('s gate_state, unit) io" where
  "ensureConfigReady env params st =
     (let commandPath = (case commandPath params of None \<Rightarrow> [] | Some cp \<Rightarrow> cp) in
      case runDoctorConfigFlowOnce env commandPath st of
        (Inl e, st0) \<Rightarrow> (Inl e, st0)
      | (Inr u, st0) \<Rightarrow>
          (case getConfigSnapshot env st0 of
             (Inl e, st1) \<Rightarrow> (Inl e, st1)
           | (Inr snapshot, st1) \<Rightarrow>
               (let invalid = exists snapshot \<and> \<not> valid snapshot in
                if \<not> invalid then (Inr (), st1)
                else
                  (case tryRecoverConfigFromBackup (CONFIG_BACKUP_COUNT env)
                          (snapshot_path snapshot) (recoveryDeps env) (world st1) of
                     (Inl e, w) \<Rightarrow>
                       (Inl e, st1\<lparr>recoveryCalls := recoveryCalls st1 @ [snapshot_path snapshot],
                                   world := w\<rparr>)
                   | (Inr (Recovered candidate backupsChecked), w) \<Rightarrow>
                       (Inr (),
                        st1\<lparr>recoveryCalls := recoveryCalls st1 @ [snapshot_path snapshot],
                            world := w,
                            runtime_calls :=
                              runtime_calls st1
                              @ map error_call (restoredDiagnostics env snapshot candidate),
                            configSnapshotPromise := None\<rparr>)
                   | (Inr (NotRecovered backupsChecked reason), w) \<Rightarrow>
                       (Inr (),
                        st1\<lparr>recoveryCalls := recoveryCalls st1 @ [snapshot_path snapshot],
                            world := w,
                            runtime_calls :=
                              runtime_calls st1
                              @ map error_call (invalidDiagnostics env snapshot backupsChecked)
                              @ (if \<not> allowInvalid commandPath then [exit_call 1] else [])\<rparr>)))))"

section \<open>Write-integrity guard (write-guard.ts)\<close>

text \<open>
  A JavaScript value of type \<open>unknown\<close>, as far as the guard looks at it: an object is the
  list of its own enumerable properties, in the order of \<open>Object.keys\<close>. The guard sees of
  a number only what \<open>JSON.stringify\<close> prints for it, so a number is that text (its decimal
  rendering, or \<open>null\<close> for \<open>NaN\<close> and the infinities).
\<close>

datatype jsvalue =
    JSUndefined
  | JSNull
  | JSBoolean bool
  | JSNumber string
  | JSString string
  | JSArray "jsvalue list"
  | JSObject "(string \<times> jsvalue) list"

fun isPlainObject :: "jsvalue \<Rightarrow> bool" where
  "isPlainObject (JSObject props) = True"
| "isPlainObject v = False"

fun Object_keys :: "jsvalue \<Rightarrow> string list" where
  "Object_keys (JSObject props) = map fst props"
| "Object_keys v = []"

text \<open>
  \<open>new Set(iterable)\<close>: the elements in insertion order, each once. \<open>Set.prototype.has\<close> is
  membership and \<open>size\<close> the length.
\<close>

definition Set_add :: "'a list \<Rightarrow> 'a \<Rightarrow> 'a list" where
  "Set_add s x = (if x \<in> set s then s else s @ [x])"

definition new_Set :: "'a list \<Rightarrow> 'a list" where
  "new_Set xs = foldl Set_add [] xs"

definition CRITICAL_TOP_LEVEL_KEYS :: "string list" where
  "CRITICAL_TOP_LEVEL_KEYS =
     new_Set [''agents'', ''gateway'', ''models'', ''channels'', ''auth'', ''plugins'', ''tools'',
              ''skills'', ''session'', ''messages'', ''commands'']"

datatype ViolationCode = dropped_critical_keys | excessive_key_loss | excessive_size_drop

datatype ViolationDetails =
    DroppedDetails "string list"
  | KeyLossDetails nat nat rat
  | SizeDropDetails nat nat

record WriteGuardViolation =
  code :: ViolationCode
  message :: string
  details :: "ViolationDetails option"

datatype WriteGuardResult =
    Safe "string list"
  | Unsafe "WriteGuardViolation list" "string list"

record WriteGuardOptions =
  force :: "bool option"
  source :: "string option"

text \<open>
  The \<open>length\<close> property of a string: the number of UTF-16 code units of its text. In the
  UTF-8 bytes of the text, a byte below \<open>0x80\<close> is a character of one unit, the bytes from
  \<open>0x80\<close> to \<open>0xBF\<close> continue a character, a lead byte from \<open>0xC0\<close> to \<open>0xEF\<close> opens a
  character of one unit and a lead byte from \<open>0xF0\<close> on opens one of two units (a surrogate
  pair). The number of bytes of the text is the \<open>length\<close> of the list.
\<close>

definition units_of_byte :: "char \<Rightarrow> nat" where
  "units_of_byte c =
     (if (of_char c :: nat) < 128 then 1
      else if (of_char c :: nat) < 192 then 0
      else if (of_char c :: nat) < 240 then 1
      else 2)"

definition String_length :: "string \<Rightarrow> nat" where
  "String_length s = sum_list (map units_of_byte s)"

text \<open>
  \<open>validateConfigWriteIntegrity\<close>. \<open>JSON.stringify\<close> is the first argument; what is
  compared of its result is the \<open>length\<close> property. The two comparisons with \<open>0.4\<close> and
  \<open>0.3\<close> are taken over the rationals: on key counts and string lengths, which are
  integers far below \<open>2^53\<close>, the double-precision quotient and product compare with the
  constants the way the exact ones do.
\<close>

definition validateConfigWriteIntegrity ::
  "(jsvalue \<Rightarrow> string) \<Rightarrow> jsvalue \<Rightarrow> jsvalue \<Rightarrow> WriteGuardOptions \<Rightarrow> WriteGuardResult" where
  "validateConfigWriteIntegrity JSON_stringify current proposed options =
     (if force options = Some True then Safe []
      else if \<not> isPlainObject current \<or> \<not> isPlainObject proposed then Safe []
      else
        let currentKeys = new_Set (Object_keys current);
            proposedKeys = new_Set (Object_keys proposed);
            sourceLabel = (case source options of
                             None \<Rightarrow> []
                           | Some src \<Rightarrow> if src \<noteq> [] then '' (source: '' @ src @ '')'' else []);
            droppedCritical =
              filter (\<lambda>key. key \<in> set currentKeys \<and> key \<notin> set proposedKeys)
                     CRITICAL_TOP_LEVEL_KEYS;
            violations1 =
              (if length droppedCritical > 0 then
                 [\<lparr>code = dropped_critical_keys,
                   message = ''Config write would remove critical top-level keys: ''
                     @ join '', '' droppedCritical @ sourceLabel @ ''. ''
                     @ ''Use config.patch for partial updates instead of replacing the entire config.'',
                   details = Some (DroppedDetails droppedCritical)\<rparr>]
               else []);
            retained = length (filter (\<lambda>key. key \<in> set proposedKeys) currentKeys);
            retentionRatio = (of_nat retained :: rat) / of_nat (length currentKeys);
            violations2 =
              (if length currentKeys \<ge> 3 \<and> retentionRatio < 4 / 10 then
                 [\<lparr>code = excessive_key_loss,
                   message = ''Config write would drop ''
                     @ string_of_nat (length currentKeys - retained) @ '' of ''
                     @ string_of_nat (length currentKeys) @ '' top-level keys'' @ sourceLabel
                     @ ''. ''
                     @ ''This looks like an accidental overwrite. Use config.patch for partial updates.'',
                   details = Some (KeyLossDetails (length currentKeys) retained retentionRatio)\<rparr>]
               else []);
            currentJson = JSON_stringify current;
            proposedJson = JSON_stringify proposed;
            violations3 =
              (if String_length currentJson \<ge> 512
                  \<and> (of_nat (String_length proposedJson) :: rat)
                      < of_nat (String_length currentJson) * (3 / 10)
               then
                 [\<lparr>code = excessive_size_drop,
                   message = ''Config write would shrink config from ''
                     @ string_of_nat (String_length currentJson) @ '' to ''
                     @ string_of_nat (String_length proposedJson) @ '' bytes'' @ sourceLabel @ ''. ''
                     @ ''This looks like an accidental overwrite.'',
                   details = Some (SizeDropDetails (String_length currentJson)
                                                   (String_length proposedJson))\<rparr>]
               else []);
            violations = violations1 @ violations2 @ violations3;
            droppedNonCritical =
              filter (\<lambda>key. key \<notin> set CRITICAL_TOP_LEVEL_KEYS \<and> key \<notin> set proposedKeys
                              \<and> key \<noteq> ''meta'')
                     currentKeys;
            warnings =
              (if length droppedNonCritical > 0 then
                 [''Config write will remove non-critical keys: '' @ join '', '' droppedNonCritical]
               else [])
        in if length violations > 0 then Unsafe violations warnings else Safe warnings)"

section \<open>An in-memory filesystem\<close>

text \<open>
  A filesystem in the shape the recovery engine takes as \<open>ioFs\<close>: a file is a path with its
  content. Which calls throw is decided by the first argument, so that every pattern of
  failures can be played.
\<close>

type_synonym mem_fs = "(string \<times> string) list"

datatype fs_call =
    ExistsCall string
  | ReadCall string
  | RenameCall string string
  | CopyCall string string

definition mem_remove :: "string \<Rightarrow> mem_fs \<Rightarrow> mem_fs" where
  "mem_remove p s = filter (\<lambda>entry. fst entry \<noteq> p) s"

definition mem_write :: "string \<Rightarrow> string \<Rightarrow> mem_fs \<Rightarrow> mem_fs" where
  "mem_write p content s = (p, content) # mem_remove p s"

definition mem_deps ::
  "(fs_call \<Rightarrow> bool) \<Rightarrow> (string \<Rightarrow> js_error + 'j) \<Rightarrow> ('j \<Rightarrow> js_error + 'c ValidationResult)
     \<Rightarrow> (mem_fs, 'j, 'c) deps" where
  "mem_deps throws parser validator =
     \<lparr>existsSync = (\<lambda>s p.
        if throws (ExistsCall p) then Inl (JsError ''EIO'')
        else Inr (map_of s p \<noteq> None)),
      readFileSync = (\<lambda>s p.
        case map_of s p of
          None \<Rightarrow> Inl (JsError ''ENOENT'')
        | Some content \<Rightarrow> if throws (ReadCall p) then Inl (JsError ''EACCES'') else Inr content),
      rename = (\<lambda>src dst s.
        if throws (RenameCall src dst) then (Inl (JsError ''EXDEV''), s)
        else (case map_of s src of
                None \<Rightarrow> (Inr (), s)
              | Some content \<Rightarrow> (Inr (), mem_write dst content (mem_remove src s)))),
      copyFile = (\<lambda>src dst s.
        if throws (CopyCall src dst) then (Inl (JsError ''ENOSPC''), s)
        else (case map_of s src of
                None \<Rightarrow> (Inr (), s)
              | Some content \<Rightarrow> (Inr (), mem_write dst content s))),
      parse = parser,
      validateConfigObjectRaw = validator\<rparr>"

text \<open>A parser that accepts the texts that open with a brace, and a validator that accepts all.\<close>

definition brace_parse :: "string \<Rightarrow> js_error + string" where
  "brace_parse raw =
     (case raw of
        [] \<Rightarrow> Inl (JsError ''SyntaxError'')
      | c # cs \<Rightarrow> if c = CHR ''{'' then Inr raw else Inl (JsError ''SyntaxError''))"

definition accept_all :: "string \<Rightarrow> js_error + string ValidationResult" where
  "accept_all parsed = Inr (ValidationOk parsed)"

text \<open>Filesystems and failure patterns for the examples below.\<close>

definition no_throws :: "fs_call \<Rightarrow> bool" where
  "no_throws call = False"

definition copy_throws :: "fs_call \<Rightarrow> bool" where
  "copy_throws call = (case call of CopyCall src dst \<Rightarrow> True | _ \<Rightarrow> False)"



definition exists_throws_on :: "string \<Rightarrow> fs_call \<Rightarrow> bool" where
  "exists_throws_on p call = (case call of ExistsCall q \<Rightarrow> q = p | _ \<Rightarrow> False)"

definition corrupt_with_backup :: mem_fs where
  "corrupt_with_backup = [(''/c.json'', ''CORRUPT''), (''/c.json.bak'', ''{}'')]"



definition two_bad_backups :: mem_fs where
  "two_bad_backups =
     [(''/c.json'', ''CORRUPT''), (''/c.json.bak'', ''ALSO CORRUPT''), (''/c.json.bak.1'', ''STILL CORRUPT'')]"






text \<open>
  A reader of the snapshot of \<open>/c.json\<close> on the in-memory filesystem, and a gate
  environment around it: no migration, no caching bypass, no colours.
\<close>

definition read_snapshot :: "string \<Rightarrow> (mem_fs, ConfigSnapshot) io" where
  "read_snapshot p w =
     (Inr (case map_of w p of
             None \<Rightarrow>
               \<lparr>snapshot_path = p, exists = False, valid = False, issues = [], legacyIssues = []\<rparr>
           | Some raw \<Rightarrow>
               (case brace_parse raw of
                  Inl e \<Rightarrow>
                    \<lparr>snapshot_path = p, exists = True, valid = False,
                     issues = [\<lparr>issue_path = [], issue_message = ''JSON5 parse failed''\<rparr>],
                     legacyIssues = []\<rparr>
                | Inr parsed \<Rightarrow>
                    \<lparr>snapshot_path = p, exists = True, valid = True, issues = [],
                     legacyIssues = []\<rparr>)), w)"

definition plain_env :: "(mem_fs, string, string) gate_env" where
  "plain_env =
     \<lparr>shouldMigrateStateFromPath = (\<lambda>commandPath. False),
      loadAndMaybeMigrateDoctorConfig = (\<lambda>w. (Inr (), w)),
      readConfigFileSnapshot = read_snapshot ''/c.json'',
      VITEST = False,
      isRich = False,
      colorize = (\<lambda>rich member text. text),
      shortenHomePath = (\<lambda>p. p),
      formatCliCommand = (\<lambda>command. command),
      recoveryDeps = mem_deps no_throws brace_parse accept_all,
      CONFIG_BACKUP_COUNT = 5\<rparr>"

definition fresh_state :: "mem_fs \<Rightarrow> mem_fs gate_state" where
  "fresh_state w =
     \<lparr>didRunDoctorConfigFlow = False, configSnapshotPromise = None, runtime_calls = [],
      recoveryCalls = [], world = w\<rparr>"

text \<open>
  The gateway operations that the description of the allowlist names: status, probe and
  health, discovery, and the lifecycle of the service.
\<close>

definition described_gateway_operations :: "string list" where
  "described_gateway_operations =
     [''status'', ''probe'', ''health'', ''discover'', ''install'', ''uninstall'', ''start'',
      ''stop'', ''restart'']"

definition valid_config :: mem_fs where
  "valid_config = [(''/c.json'', ''{}''), (''/c.json.bak'', ''{}'')]"

text \<open>
  A serializer for the examples of the write guard: the compact JSON text that
  \<open>JSON.stringify\<close> gives for an object or array of strings, numbers, booleans, \<open>null\<close>,
  arrays and objects. A property whose value is \<open>undefined\<close> is left out, an \<open>undefined\<close>
  array element is \<open>null\<close>; in a string, the quote, the backslash and the control
  characters are escaped and every other character, ASCII or not, stands for itself. For
  \<open>undefined\<close> itself the built-in returns no text at all; the examples never serialize it.
\<close>

definition escape_char :: "char \<Rightarrow> string" where
  "escape_char c =
     (if c = CHR 0x22 then [CHR 0x5C, CHR 0x22]
      else if c = CHR 0x5C then [CHR 0x5C, CHR 0x5C]
      else if c = CHR 0x08 then [CHR 0x5C, CHR ''b'']
      else if c = CHR 0x09 then [CHR 0x5C, CHR ''t'']
      else if c = CHR 0x0A then [CHR 0x5C, CHR ''n'']
      else if c = CHR 0x0C then [CHR 0x5C, CHR ''f'']
      else if c = CHR 0x0D then [CHR 0x5C, CHR ''r'']
      else if (of_char c :: nat) < 32
        then [CHR 0x5C, CHR ''u'', CHR ''0'', CHR ''0'',
              ''0123456789abcdef'' ! (of_char c div 16), ''0123456789abcdef'' ! (of_char c mod 16)]
      else [c])"

definition quote :: "string \<Rightarrow> string" where
  "quote s = [CHR 0x22] @ concat (map escape_char s) @ [CHR 0x22]"

fun JSON_stringify :: "jsvalue \<Rightarrow> string" where
  "JSON_stringify JSUndefined = ''undefined''"
| "JSON_stringify JSNull = ''null''"
| "JSON_stringify (JSBoolean b) = (if b then ''true'' else ''false'')"
| "JSON_stringify (JSNumber digits) = digits"
| "JSON_stringify (JSString s) = quote s"
| "JSON_stringify (JSArray vs) =
     ''['' @ join '','' (map (\<lambda>v. if v = JSUndefined then ''null'' else JSON_stringify v) vs) @ '']''"
| "JSON_stringify (JSObject props) =
     ''{'' @ join '',''
               (map (\<lambda>prop. quote (fst prop) @ '':'' @ JSON_stringify (snd prop))
                    (filter (\<lambda>prop. snd prop \<noteq> JSUndefined) props)) @ ''}''"



definition long_content :: jsvalue where
  "long_content =
     JSObject [(''agents'', JSObject []), (''longContent'', JSString (replicate 600 CHR ''x''))]"

definition short_content :: jsvalue where
  "short_content = JSObject [(''agents'', JSObject []), (''longContent'', JSString ''x'')]"

text \<open>
  A config of one key whose value is 168 em dashes (\<open>U+2014\<close>, three bytes in UTF-8 and one
  UTF-16 code unit each), and the same key with the empty string.
\<close>

definition em_dashes :: jsvalue where
  "em_dashes =
     JSObject [(''k'', JSString (concat (replicate 168 [CHR 0xE2, CHR 0x80, CHR 0x94])))]"

definition no_dashes :: jsvalue where
  "no_dashes = JSObject [(''k'', JSString [])]"

definition no_options :: WriteGuardOptions where
  "no_options = \<lparr>force = None, source = None\<rparr>"
section \<open>Notions for the statements\<close>

text \<open>
  A rotation slot is usable in a filesystem state when its file exists, reads, parses and
  validates. \<open>slotConfig\<close> is \<open>Inr (Some cfg)\<close> for a usable slot with its validated config,
  \<open>Inr None\<close> for a slot whose file does not exist or does not read, parse and validate, and
  \<open>Inl e\<close> when \<open>existsSync\<close> throws \<open>e\<close> on the slot's path.
\<close>

definition slotConfig ::
  "('s, 'j, 'c) deps \<Rightarrow> 's \<Rightarrow> BackupCandidate \<Rightarrow> js_error + 'c option" where
  "slotConfig d s candidate =
     (case existsSync d s (path candidate) of
        Inl e \<Rightarrow> Inl e
      | Inr found \<Rightarrow>
          if found then
            (case loadCandidate d s candidate of
               Inr (ValidationOk cfg) \<Rightarrow> Inr (Some cfg)
             | Inr (ValidationFailed problems) \<Rightarrow> Inr None
             | Inl e \<Rightarrow> Inr None)
          else Inr None)"



definition violationsOf :: "WriteGuardResult \<Rightarrow> WriteGuardViolation list" where
  "violationsOf r = (case r of Safe warnings \<Rightarrow> [] | Unsafe violations warnings \<Rightarrow> violations)"

definition warningsOf :: "WriteGuardResult \<Rightarrow> string list" where
  "warningsOf r = (case r of Safe warnings \<Rightarrow> warnings | Unsafe violations warnings \<Rightarrow> warnings)"

section \<open>The recovery loop\<close>

text \<open>What the loop does on one slot, by the status of the slot.\<close>

lemma slot_throws:
  assumes "slotConfig d s c = Inl e"
  shows "recoverLoop d p (c # cs) k s = (Inl e, s)"
    and "findValidBackup_loop d s (c # cs) = Inl e"
    and "existsSync d s (path c) = Inl e"
  using assms
  by (auto simp: slotConfig_def split: if_splits sum.splits ValidationResult.splits)

lemma slot_skipped:
  assumes "slotConfig d s c = Inr None"
  shows "recoverLoop d p (c # cs) k s =
         recoverLoop d p cs (if existsSync d s (path c) = Inr True then k + 1 else k) s"
    and "findValidBackup_loop d s (c # cs) = findValidBackup_loop d s cs"
  using assms
  by (auto simp: slotConfig_def try_catch_def restoreAttempt_def
           split: if_splits sum.splits ValidationResult.splits prod.splits)

lemma slot_found:
  assumes "slotConfig d s c = Inr (Some cfg)"
  shows "findValidBackup_loop d s (c # cs) = Inr (Some (withConfig c cfg))"
    and "existsSync d s (path c) = Inr True"
  using assms
  by (auto simp: slotConfig_def split: if_splits sum.splits ValidationResult.splits)

lemma slot_restored:
  assumes "slotConfig d s c = Inr (Some cfg)"
    and "restoreFromCandidate d p (path c) s = (Inr (), s1)"
  shows "recoverLoop d p (c # cs) k s = (Inr (Recovered (withConfig c cfg) (k + 1)), s1)"
  using assms
  by (auto simp: slotConfig_def try_catch_def restoreAttempt_def
           split: if_splits sum.splits ValidationResult.splits prod.splits)

lemma slot_restore_threw:
  assumes "slotConfig d s c = Inr (Some cfg)"
    and "restoreFromCandidate d p (path c) s = (Inl e, s1)"
  shows "recoverLoop d p (c # cs) k s = recoverLoop d p cs (k + 1) s1"
  using assms
  by (auto simp: slotConfig_def try_catch_def restoreAttempt_def
           split: if_splits sum.splits ValidationResult.splits prod.splits)

lemma recoverLoop_cases:
  obtains (throws) e where "slotConfig d s c = Inl e"
      "recoverLoop d p (c # cs) k s = (Inl e, s)"
    | (skip) "slotConfig d s c = Inr None"
      "recoverLoop d p (c # cs) k s =
         recoverLoop d p cs (if existsSync d s (path c) = Inr True then k + 1 else k) s"
    | (hit) cfg where "slotConfig d s c = Inr (Some cfg)"
      "recoverLoop d p (c # cs) k s =
         (Inr (Recovered (withConfig c cfg) (k + 1)), snd (restoreFromCandidate d p (path c) s))"
      "fst (restoreFromCandidate d p (path c) s) = Inr ()"
    | (miss) cfg e where "slotConfig d s c = Inr (Some cfg)"
      "recoverLoop d p (c # cs) k s =
         recoverLoop d p cs (k + 1) (snd (restoreFromCandidate d p (path c) s))"
      "fst (restoreFromCandidate d p (path c) s) = Inl e"
proof (cases "slotConfig d s c")
  case (Inl e)
  show ?thesis by (rule throws [OF Inl slot_throws(1) [OF Inl]])
next
  case (Inr status)
  show ?thesis
  proof (cases status)
    case None
    with Inr have n: "slotConfig d s c = Inr None" by simp
    show ?thesis by (rule skip [OF n slot_skipped(1) [OF n]])
  next
    case (Some cfg)
    with Inr have f: "slotConfig d s c = Inr (Some cfg)" by simp
    obtain res s1 where r: "restoreFromCandidate d p (path c) s = (res, s1)"
      by (cases "restoreFromCandidate d p (path c) s")
    show ?thesis
    proof (cases res)
      case (Inl e)
      with r f slot_restore_threw [of d s c cfg p e s1 cs k] show ?thesis using miss by simp
    next
      case (Inr u)
      with r f slot_restored [of d s c cfg p s1 cs k] show ?thesis using hit by simp
    qed
  qed
qed













text \<open>A failure that changed the filesystem went through a restore that threw.\<close>

lemma recoverLoop_failure:
  assumes "recoverLoop d p cs k s = (Inr (NotRecovered k' r), s')"
  shows "s' = s \<or>
         (\<exists>i cfg e. i < length cs \<and> slotConfig d s (cs ! i) = Inr (Some cfg)
            \<and> fst (restoreFromCandidate d p (path (cs ! i)) s) = Inl e)"
  using assms
proof (induction cs arbitrary: k)
  case Nil
  then show ?case by simp
next
  case (Cons c cs)
  show ?case
  proof (cases rule: recoverLoop_cases [of d s c p cs k])
    case (throws e)
    with Cons.prems show ?thesis by simp
  next
    case skip
    with Cons.prems
    have "recoverLoop d p cs (if existsSync d s (path c) = Inr True then k + 1 else k) s
            = (Inr (NotRecovered k' r), s')" by simp
    from Cons.IH [OF this] show ?thesis
    proof
      assume "s' = s" then show ?thesis by simp
    next
      assume "\<exists>i cfg e. i < length cs \<and> slotConfig d s (cs ! i) = Inr (Some cfg)
            \<and> fst (restoreFromCandidate d p (path (cs ! i)) s) = Inl e"
      then obtain i cfg e where "i < length cs" "slotConfig d s (cs ! i) = Inr (Some cfg)"
        "fst (restoreFromCandidate d p (path (cs ! i)) s) = Inl e" by blast
      then have "Suc i < length (c # cs) \<and> slotConfig d s ((c # cs) ! Suc i) = Inr (Some cfg)
            \<and> fst (restoreFromCandidate d p (path ((c # cs) ! Suc i)) s) = Inl e" by simp
      then show ?thesis by blast
    qed
  next
    case (hit cfg)
    with Cons.prems show ?thesis by simp
  next
    case (miss cfg e)
    then have "0 < length (c # cs) \<and> slotConfig d s ((c # cs) ! 0) = Inr (Some cfg)
            \<and> fst (restoreFromCandidate d p (path ((c # cs) ! 0)) s) = Inl e" by simp
    then show ?thesis by blast
  qed
qed

text \<open>When no restore throws, the two loops go the same way.\<close>

lemma loops_agree:
  assumes "\<forall>cp s0. fst (restoreFromCandidate d p cp s0) = Inr ()"
  shows "case findValidBackup_loop d s cs of
           Inl e \<Rightarrow> fst (recoverLoop d p cs k s) = Inl e
         | Inr None \<Rightarrow> (\<exists>k' r. fst (recoverLoop d p cs k s) = Inr (NotRecovered k' r))
         | Inr (Some rc) \<Rightarrow> (\<exists>k'. fst (recoverLoop d p cs k s) = Inr (Recovered rc k'))"
proof (induction cs arbitrary: k)
  case Nil
  show ?case by simp
next
  case (Cons c cs)
  show ?case
  proof (cases rule: recoverLoop_cases [of d s c p cs k])
    case (throws e)
    show ?thesis
      unfolding slot_throws(2) [OF throws(1)] throws(2) by simp
  next
    case skip
    show ?thesis
      unfolding slot_skipped(2) [OF skip(1)] skip(2) by (rule Cons.IH)
  next
    case (hit cfg)
    show ?thesis
      unfolding slot_found(1) [OF hit(1)] hit(2) by simp
  next
    case (miss cfg e)
    with assms show ?thesis by simp
  qed
qed

lemma restore_returns:
  assumes "\<forall>s0. \<exists>found. existsSync d s0 p = Inr found"
    and "\<forall>src dst s0. fst (copyFile d src dst s0) = Inr ()"
  shows "fst (restoreFromCandidate d p cp s) = Inr ()"
proof -
  obtain found where f: "existsSync d s p = Inr found" using assms(1) by blast
  have a: "fst (moveCorruptedAside d p s) = Inr ()"
    using assms(2) f
    by (auto simp: moveCorruptedAside_def try_catch_def split: prod.splits sum.splits)
  then show ?thesis using assms(2)
    by (auto simp: restoreFromCandidate_def split: prod.splits sum.splits)
qed




lemma mem_deps_exists_throws_on:
  "fst (rename (mem_deps (exists_throws_on q) parser validator) src dst s) = Inr ()"
  "fst (copyFile (mem_deps (exists_throws_on q) parser validator) src dst s) = Inr ()"
  by (auto simp: mem_deps_def exists_throws_on_def split: option.splits)

lemma mem_deps_no_throws:
  "fst (rename (mem_deps no_throws parser validator) src dst s) = Inr ()"
  "fst (copyFile (mem_deps no_throws parser validator) src dst s) = Inr ()"
  "\<exists>found. existsSync (mem_deps no_throws parser validator) s q = Inr found"
  by (auto simp: mem_deps_def no_throws_def split: option.splits)

section \<open>The gate, step by step\<close>

lemma allowInvalid_iff:
  "allowInvalid cp \<longleftrightarrow>
     (\<exists>c rest. cp = c # rest \<and> c \<in> {''doctor'', ''logs'', ''health'', ''help'', ''status''}) \<or>
     (\<exists>sub rest. cp = ''gateway'' # sub # rest \<and>
        sub \<in> {''status'', ''probe'', ''health'', ''discover'', ''call'', ''install'',
                ''uninstall'', ''start'', ''stop'', ''restart''})"
proof (cases cp)
  case Nil
  then show ?thesis by (simp add: allowInvalid_def)
next
  case (Cons c rest)
  show ?thesis
  proof (cases rest)
    case Nil
    with Cons show ?thesis
      by (auto simp: allowInvalid_def ALLOWED_INVALID_COMMANDS_def)
  next
    case (Cons sub rest')
    with \<open>cp = c # rest\<close> show ?thesis
      by (auto simp: allowInvalid_def ALLOWED_INVALID_COMMANDS_def
                     ALLOWED_INVALID_GATEWAY_SUBCOMMANDS_def)
  qed
qed

lemma getConfigSnapshot_keeps_logs:
  assumes "getConfigSnapshot env st0 = (r, st1)"
  shows "runtime_calls st1 = runtime_calls st0 \<and> recoveryCalls st1 = recoveryCalls st0"
  using assms
  by (auto simp: getConfigSnapshot_def split: if_splits option.splits prod.splits)

lemma runDoctorConfigFlowOnce_keeps_logs:
  assumes "runDoctorConfigFlowOnce env cp st = (r, st0)"
  shows "runtime_calls st0 = runtime_calls st \<and> recoveryCalls st0 = recoveryCalls st"
  using assms
  by (auto simp: runDoctorConfigFlowOnce_def split: if_splits prod.splits)

lemma invalidDiagnostics_heading:
  "\<exists>rest. invalidDiagnostics env snapshot k =
            colorize env (isRich env) theme_heading ''Config invalid'' # rest"
  by (simp add: invalidDiagnostics_def Let_def)


section \<open>The write guard, heuristic by heuristic\<close>

lemma foldl_Set_add:
  "set (foldl Set_add acc xs) = set acc \<union> set xs"
  "distinct acc \<Longrightarrow> distinct (foldl Set_add acc xs)"
  by (induction xs arbitrary: acc) (auto simp: Set_add_def)

lemma set_new_Set: "set (new_Set xs) = set xs"
  by (simp add: new_Set_def foldl_Set_add)

lemma distinct_new_Set: "distinct (new_Set xs)"
  by (simp add: new_Set_def foldl_Set_add)

lemma size_new_Set: "length (new_Set xs) = card (set xs)"
  using distinct_card [OF distinct_new_Set, of xs] by (simp add: set_new_Set)

lemma retained_new_Set:
  "length (filter (\<lambda>key. key \<in> B) (new_Set xs)) = card (set xs \<inter> B)"
  using distinct_length_filter [OF distinct_new_Set, of "\<lambda>key. key \<in> B" xs]
  by (simp add: set_new_Set Int_def conj_commute)


lemma violation_codes:
  assumes "force options \<noteq> Some True"
  shows "map code (violationsOf (validateConfigWriteIntegrity J (JSObject cur) (JSObject new) options)) =
         (if filter (\<lambda>key. key \<in> fst ` set cur \<and> key \<notin> fst ` set new) CRITICAL_TOP_LEVEL_KEYS \<noteq> []
          then [dropped_critical_keys] else [])
       @ (if 3 \<le> card (fst ` set cur)
             \<and> (of_nat (card (fst ` set cur \<inter> fst ` set new)) :: rat) / of_nat (card (fst ` set cur)) < 4 / 10
          then [excessive_key_loss] else [])
       @ (if 512 \<le> String_length (J (JSObject cur))
             \<and> (of_nat (String_length (J (JSObject new))) :: rat) < of_nat (String_length (J (JSObject cur))) * (3 / 10)
          then [excessive_size_drop] else [])"
  using assms
  by (simp add: validateConfigWriteIntegrity_def Let_def violationsOf_def set_new_Set size_new_Set
                retained_new_Set)


lemma result_shape:
  "validateConfigWriteIntegrity J current proposed options =
     (if violationsOf (validateConfigWriteIntegrity J current proposed options) = []
      then Safe (warningsOf (validateConfigWriteIntegrity J current proposed options))
      else Unsafe (violationsOf (validateConfigWriteIntegrity J current proposed options))
                  (warningsOf (validateConfigWriteIntegrity J current proposed options)))"
  by (simp add: validateConfigWriteIntegrity_def Let_def violationsOf_def warningsOf_def)

lemma warnings_when_keys_kept:
  assumes "fst ` set cur \<subseteq> fst ` set new"
  shows "warningsOf (validateConfigWriteIntegrity J (JSObject cur) (JSObject new) options) = []"
proof -
  have "filter (\<lambda>key. key \<notin> set CRITICAL_TOP_LEVEL_KEYS \<and> key \<notin> fst ` set new \<and> key \<noteq> ''meta'')
          (new_Set (map fst cur)) = []"
    using assms by (auto simp: filter_empty_conv set_new_Set)
  then show ?thesis
    by (simp add: validateConfigWriteIntegrity_def Let_def warningsOf_def set_new_Set)
qed




lemma String_length_ascii:
  assumes "\<forall>c\<in>set s. (of_char c :: nat) < 128"
  shows "String_length s = length s"
  using assms by (induction s) (auto simp: String_length_def units_of_byte_def)

lemma code_in_violations:
  "c \<in> code ` set vs \<longleftrightarrow> c \<in> set (map code vs)"
  by simp

text \<open>The sizes of the config of em dashes, without writing its 512 bytes out.\<close>

lemma escape_dashes:
  "concat (map escape_char (concat (replicate n [CHR 0xE2, CHR 0x80, CHR 0x94]))) =
   concat (replicate n [CHR 0xE2, CHR 0x80, CHR 0x94])"
proof -
  have e: "escape_char (CHR 0xE2) = [CHR 0xE2]" "escape_char (CHR 0x80) = [CHR 0x80]"
    "escape_char (CHR 0x94) = [CHR 0x94]" by code_simp+
  show ?thesis by (induction n) (simp_all add: e)
qed

lemma units_of_dashes:
  "String_length (concat (replicate n [CHR 0xE2, CHR 0x80, CHR 0x94])) = n"
proof -
  have u: "units_of_byte (CHR 0xE2) = 1" "units_of_byte (CHR 0x80) = 0"
    "units_of_byte (CHR 0x94) = 0" by code_simp+
  show ?thesis by (induction n) (simp_all add: u String_length_def)
qed

lemma bytes_of_dashes:
  "length (concat (replicate n [CHR 0xE2, CHR 0x80, CHR 0x94])) = 3 * n"
  by (induction n) simp_all

lemma String_length_append: "String_length (a @ b) = String_length a + String_length b"
  by (simp add: String_length_def)

lemma stringify_em_dashes:
  "JSON_stringify em_dashes =
     [CHR ''{'', CHR 0x22, CHR ''k'', CHR 0x22, CHR '':'', CHR 0x22]
     @ concat (replicate 168 [CHR 0xE2, CHR 0x80, CHR 0x94]) @ [CHR 0x22, CHR ''}'']"
proof -
  have k: "escape_char (CHR ''k'') = [CHR ''k'']" by code_simp
  show ?thesis
    by (simp add: em_dashes_def k quote_def escape_dashes)
qed

lemma sizes_of_em_dashes:
  "length (JSON_stringify em_dashes) = 512"
  "String_length (JSON_stringify em_dashes) = 176"
proof -
  have h: "String_length [CHR ''{'', CHR 0x22, CHR ''k'', CHR 0x22, CHR '':'', CHR 0x22] = 6"
    "String_length [CHR 0x22, CHR ''}''] = 2" by code_simp+
  show "length (JSON_stringify em_dashes) = 512"
    by (simp add: stringify_em_dashes bytes_of_dashes)
  show "String_length (JSON_stringify em_dashes) = 176"
    unfolding stringify_em_dashes String_length_append units_of_dashes h by simp
qed

lemma sizes_of_no_dashes:
  "length (JSON_stringify no_dashes) = 8"
  "String_length (JSON_stringify no_dashes) = 8"
  by code_simp+

section \<open>The recovery engine\<close>

text \<open>
  C1, as stated, fails. The primary file exists, the most recent backup validates, the
  rename to the quarantine path succeeds and the copy of the backup over the primary path
  throws: the catch clause goes on to the next slot, no other slot exists, and the call
  returns the failure variant with the primary file gone from its path.
\<close>

theorem failed_restore_moves_primary_away:
  "tryRecoverConfigFromBackup 5 ''/c.json'' (mem_deps copy_throws brace_parse accept_all)
     corrupt_with_backup
   = (Inr (NotRecovered 1 ''all backup files are invalid or unreadable''),
      [(''/c.json.corrupted'', ''CORRUPT''), (''/c.json.bak'', ''{}'')])
   \<and> readFileSync (mem_deps copy_throws brace_parse accept_all) corrupt_with_backup ''/c.json''
       = Inr ''CORRUPT''
   \<and> existsSync (mem_deps copy_throws brace_parse accept_all)
        [(''/c.json.corrupted'', ''CORRUPT''), (''/c.json.bak'', ''{}'')] ''/c.json'' = Inr False"
  by code_simp

text \<open>
  C1, amended. When \<open>tryRecoverConfigFromBackup\<close> returns the failure variant, the
  filesystem is exactly as it was before the call, unless some rotation slot existed and
  validated and the restore from it (the rename or copy to the quarantine path, then the
  copy over the primary path) threw. \<open>rename\<close> and \<open>copyFile\<close> are not called before a
  slot has validated.
\<close>

theorem failure_changes_nothing_unless_restore_threw:
  assumes "tryRecoverConfigFromBackup n p d s = (Inr (NotRecovered k r), s')"
  shows "s' = s \<or>
         (\<exists>i cfg e. i < length (buildBackupCandidates n p)
            \<and> slotConfig d s (buildBackupCandidates n p ! i) = Inr (Some cfg)
            \<and> fst (restoreFromCandidate d p (path (buildBackupCandidates n p ! i)) s) = Inl e)"
  using assms unfolding tryRecoverConfigFromBackup_def by (rule recoverLoop_failure)

text \<open>
  C1, an instance of the amended statement: two backups exist, neither parses, and the
  failed call leaves the filesystem as it was.
\<close>

theorem failure_changes_nothing_unless_restore_threw_witness:
  "snd (tryRecoverConfigFromBackup 5 ''/c.json'' (mem_deps no_throws brace_parse accept_all)
          two_bad_backups) = two_bad_backups"
proof -
  have h: "tryRecoverConfigFromBackup 5 ''/c.json'' (mem_deps no_throws brace_parse accept_all)
             two_bad_backups
           = (Inr (NotRecovered 2 ''all backup files are invalid or unreadable''), two_bad_backups)"
    by code_simp
  show ?thesis
    using failure_changes_nothing_unless_restore_threw [OF h] h by simp
qed







text \<open>
  C10, as stated, fails. \<open>tryRecoverConfigFromBackup\<close> asks \<open>existsSync\<close> about the primary
  path inside its try block, and \<open>findValidBackup\<close> never does. With an injected
  \<open>existsSync\<close> that throws on the primary path and nowhere else, always the same way, and
  \<open>rename\<close> and \<open>copyFile\<close> that never throw (\<open>mem_deps_exists_throws_on\<close>), the valid backup
  is found by \<open>findValidBackup\<close>, while the recovery abandons the restore in its catch
  clause and returns the failure variant.
\<close>

theorem recovery_fails_where_findValidBackup_finds:
  "tryRecoverConfigFromBackup 5 ''/c.json''
     (mem_deps (exists_throws_on ''/c.json'') brace_parse accept_all) corrupt_with_backup
     = (Inr (NotRecovered 1 ''all backup files are invalid or unreadable''), corrupt_with_backup)
   \<and> findValidBackup 5 ''/c.json''
       (mem_deps (exists_throws_on ''/c.json'') brace_parse accept_all) corrupt_with_backup
     = Inr (Some \<lparr>path = ''/c.json.bak'', label = ''.bak (most recent)'', config = ''{}''\<rparr>)"
  by code_simp

text \<open>
  C10, amended. When \<open>existsSync\<close> returns a boolean on the primary path and \<open>rename\<close> and
  \<open>copyFile\<close> never throw, \<open>tryRecoverConfigFromBackup\<close> returns the success variant if and
  only if \<open>findValidBackup\<close>, with the same collaborators on the same filesystem, returns a
  candidate, and the candidate of the success variant (path, label and validated config)
  is the one \<open>findValidBackup\<close> returns. On the slot paths \<open>existsSync\<close> may throw: then both
  functions throw.
\<close>

theorem recovery_succeeds_iff_findValidBackup_finds:
  assumes "\<forall>s0. \<exists>found. existsSync d s0 p = Inr found"
    and "\<forall>src dst s0. fst (rename d src dst s0) = Inr ()"
    and "\<forall>src dst s0. fst (copyFile d src dst s0) = Inr ()"
  shows "((\<exists>c k. fst (tryRecoverConfigFromBackup n p d s) = Inr (Recovered c k))
            \<longleftrightarrow> (\<exists>c. findValidBackup n p d s = Inr (Some c)))
       \<and> (\<forall>c k. fst (tryRecoverConfigFromBackup n p d s) = Inr (Recovered c k)
            \<longrightarrow> findValidBackup n p d s = Inr (Some c))"
proof -
  have "\<forall>cp s0. fst (restoreFromCandidate d p cp s0) = Inr ()"
    using restore_returns [OF assms(1,3)] by blast
  from loops_agree [OF this, where s = s and cs = "buildBackupCandidates n p" and k = 0]
  show ?thesis
    unfolding tryRecoverConfigFromBackup_def findValidBackup_def
    by (auto split: sum.splits option.splits)
qed

text \<open>
  C10, an instance: on the in-memory filesystem without failures, both functions pick the
  most recent backup.
\<close>

theorem recovery_succeeds_iff_findValidBackup_finds_witness:
  "fst (tryRecoverConfigFromBackup 5 ''/c.json'' (mem_deps no_throws brace_parse accept_all)
          corrupt_with_backup)
     = Inr (Recovered \<lparr>path = ''/c.json.bak'', label = ''.bak (most recent)'', config = ''{}''\<rparr> 1)
   \<and> findValidBackup 5 ''/c.json'' (mem_deps no_throws brace_parse accept_all) corrupt_with_backup
     = Inr (Some \<lparr>path = ''/c.json.bak'', label = ''.bak (most recent)'', config = ''{}''\<rparr>)"
proof -
  let ?d = "mem_deps no_throws brace_parse accept_all :: (mem_fs, string, string) deps"
  have e: "\<forall>s0. \<exists>found. existsSync ?d s0 ''/c.json'' = Inr found"
    and r: "\<forall>src dst s0. fst (rename ?d src dst s0) = Inr ()"
    and c: "\<forall>src dst s0. fst (copyFile ?d src dst s0) = Inr ()"
    by (simp_all add: mem_deps_no_throws)
  have h: "fst (tryRecoverConfigFromBackup 5 ''/c.json'' ?d corrupt_with_backup)
     = Inr (Recovered \<lparr>path = ''/c.json.bak'', label = ''.bak (most recent)'', config = ''{}''\<rparr> 1)"
    by code_simp
  show ?thesis
    using recovery_succeeds_iff_findValidBackup_finds [OF e r c, of 5 corrupt_with_backup] h
    by simp
qed

section \<open>The startup gate\<close>

text \<open>
  C4, as stated, fails. The gateway allowlist of the code is not limited to status, probe,
  health, discovery and lifecycle operations: it also holds \<open>call\<close>. With a corrupt config
  and two corrupt backups, \<open>gateway call\<close> gets the diagnostics and returns, and
  \<open>runtime.exit\<close> is not called.
\<close>

theorem gateway_call_passes_the_gate:
  "runtime_calls
     (snd (ensureConfigReady plain_env \<lparr>commandPath = Some [''gateway'', ''call'']\<rparr>
             (fresh_state two_bad_backups)))
     = [error_call ''Config invalid'',
        error_call ''File: /c.json'',
        error_call ''Problem:'',
        error_call ''  - <root>: JSON5 parse failed'',
        error_call ''Checked 2 backup(s) but none were valid.'',
        error_call [],
        error_call ''Run: openclaw doctor --fix'']
   \<and> ''call'' \<notin> set described_gateway_operations
   \<and> ''call'' \<in> set ALLOWED_INVALID_GATEWAY_SUBCOMMANDS"
  by code_simp

text \<open>
  C4, amended. When the snapshot exists, is invalid, and the recovery returns the failure
  variant, \<open>ensureConfigReady\<close> passes the diagnostics to \<open>runtime.error\<close>, starting with the
  heading \<open>Config invalid\<close>, and then calls \<open>runtime.exit(1)\<close>, unless the first segment of
  the command path is one of doctor, logs, health, help, status, or the command path
  opens with gateway followed by one of status, probe, health, discover, call, install,
  uninstall, start, stop, restart (the status, probe, health, discovery and lifecycle
  operations, and \<open>call\<close>): for exactly those command paths it returns after the
  diagnostics without calling \<open>exit\<close>.
\<close>

theorem unrecoverable_config_exits_unless_allowlisted:
  assumes "cp = (case commandPath params of None \<Rightarrow> [] | Some cp \<Rightarrow> cp)"
    and "runDoctorConfigFlowOnce env cp st = (Inr (), st0)"
    and "getConfigSnapshot env st0 = (Inr snapshot, st1)"
    and "exists snapshot" and "\<not> valid snapshot"
    and "tryRecoverConfigFromBackup (CONFIG_BACKUP_COUNT env) (snapshot_path snapshot)
           (recoveryDeps env) (world st1) = (Inr (NotRecovered k reason), w)"
  shows "\<exists>st2 rest.
           ensureConfigReady env params st = (Inr (), st2)
         \<and> invalidDiagnostics env snapshot k
             = colorize env (isRich env) theme_heading ''Config invalid'' # rest
         \<and> runtime_calls st2 =
             runtime_calls st1 @ map error_call (invalidDiagnostics env snapshot k)
             @ (if (\<exists>c more. cp = c # more
                      \<and> c \<in> {''doctor'', ''logs'', ''health'', ''help'', ''status''})
                   \<or> (\<exists>sub more. cp = ''gateway'' # sub # more
                      \<and> sub \<in> {''status'', ''probe'', ''health'', ''discover'', ''call'',
                                ''install'', ''uninstall'', ''start'', ''stop'', ''restart''})
                then [] else [exit_call 1])"
proof -
  obtain rest where rest: "invalidDiagnostics env snapshot k
             = colorize env (isRich env) theme_heading ''Config invalid'' # rest"
    using invalidDiagnostics_heading [of env snapshot k] by blast
  let ?st2 = "st1\<lparr>recoveryCalls := recoveryCalls st1 @ [snapshot_path snapshot],
                   world := w,
                   runtime_calls :=
                     runtime_calls st1 @ map error_call (invalidDiagnostics env snapshot k)
                     @ (if \<not> allowInvalid cp then [exit_call 1] else [])\<rparr>"
  have run: "ensureConfigReady env params st = (Inr (), ?st2)"
    using assms by (simp add: ensureConfigReady_def Let_def)
  have calls: "runtime_calls ?st2 =
             runtime_calls st1 @ map error_call (invalidDiagnostics env snapshot k)
             @ (if (\<exists>c more. cp = c # more
                      \<and> c \<in> {''doctor'', ''logs'', ''health'', ''help'', ''status''})
                   \<or> (\<exists>sub more. cp = ''gateway'' # sub # more
                      \<and> sub \<in> {''status'', ''probe'', ''health'', ''discover'', ''call'',
                                ''install'', ''uninstall'', ''start'', ''stop'', ''restart''})
                then [] else [exit_call 1])"
    using allowInvalid_iff [of cp] by simp
  from run rest calls show ?thesis by blast
qed

text \<open>
  C4, an instance: with a corrupt config and two corrupt backups, the command \<open>agent\<close>
  ends in \<open>exit(1)\<close> after the diagnostics.
\<close>

theorem unrecoverable_config_exits_unless_allowlisted_witness:
  "runtime_calls
     (snd (ensureConfigReady plain_env \<lparr>commandPath = Some [''agent'']\<rparr>
             (fresh_state two_bad_backups)))
     = [error_call ''Config invalid'',
        error_call ''File: /c.json'',
        error_call ''Problem:'',
        error_call ''  - <root>: JSON5 parse failed'',
        error_call ''Checked 2 backup(s) but none were valid.'',
        error_call [],
        error_call ''Run: openclaw doctor --fix'',
        exit_call 1]"
proof -
  let ?params = "\<lparr>commandPath = Some [''agent'']\<rparr>"
  let ?snap = "\<lparr>snapshot_path = ''/c.json'', exists = True, valid = False,
                       issues = [\<lparr>issue_path = [], issue_message = ''JSON5 parse failed''\<rparr>],
                       legacyIssues = []\<rparr>"
  let ?st = "fresh_state two_bad_backups"
  let ?st1 = "?st\<lparr>configSnapshotPromise := Some (Inr ?snap)\<rparr>"
  have h0: "[''agent''] = (case commandPath ?params of None \<Rightarrow> [] | Some cp \<Rightarrow> cp)" by simp
  have h1: "runDoctorConfigFlowOnce plain_env [''agent''] ?st = (Inr (), ?st)"
    by (simp add: runDoctorConfigFlowOnce_def plain_env_def)
  have h2: "getConfigSnapshot plain_env ?st = (Inr ?snap, ?st1)"
    by (simp add: getConfigSnapshot_def plain_env_def fresh_state_def read_snapshot_def
                  two_bad_backups_def brace_parse_def)
  have h3: "exists ?snap" and h4: "\<not> valid ?snap" by simp_all
  have h5: "tryRecoverConfigFromBackup (CONFIG_BACKUP_COUNT plain_env) (snapshot_path ?snap)
              (recoveryDeps plain_env) (world ?st1)
            = (Inr (NotRecovered 2 ''all backup files are invalid or unreadable''), two_bad_backups)"
    by code_simp
  have d: "invalidDiagnostics plain_env ?snap 2 =
            [''Config invalid'', ''File: /c.json'', ''Problem:'', ''  - <root>: JSON5 parse failed'',
             ''Checked 2 backup(s) but none were valid.'', [], ''Run: openclaw doctor --fix'']"
    by code_simp
  from unrecoverable_config_exits_unless_allowlisted [OF h0 h1 h2 h3 h4 h5]
  obtain st2 where st2: "ensureConfigReady plain_env ?params ?st = (Inr (), st2)"
    and "runtime_calls st2 = runtime_calls ?st1 @ map error_call (invalidDiagnostics plain_env ?snap 2) @ [exit_call 1]"
    by auto
  then show ?thesis by (simp add: d fresh_state_def)
qed

text \<open>
  C5. When the snapshot does not exist, or exists and is valid, \<open>ensureConfigReady\<close> returns
  as soon as it has the snapshot: \<open>params.runtime\<close> receives no call and
  \<open>tryRecoverConfigFromBackup\<close> is not invoked. When the snapshot exists and is invalid,
  the recovery is invoked, once, on the snapshot's path.
\<close>

theorem absent_or_valid_snapshot_returns_at_once:
  assumes "runDoctorConfigFlowOnce env (case commandPath params of None \<Rightarrow> [] | Some cp \<Rightarrow> cp) st
             = (Inr (), st0)"
    and "getConfigSnapshot env st0 = (Inr snapshot, st1)"
  shows "(\<not> exists snapshot \<or> valid snapshot \<longrightarrow>
            ensureConfigReady env params st = (Inr (), st1)
            \<and> runtime_calls st1 = runtime_calls st
            \<and> recoveryCalls st1 = recoveryCalls st)
       \<and> (exists snapshot \<and> \<not> valid snapshot \<longrightarrow>
            recoveryCalls (snd (ensureConfigReady env params st))
              = recoveryCalls st @ [snapshot_path snapshot])"
proof -
  have logs: "runtime_calls st1 = runtime_calls st" "recoveryCalls st1 = recoveryCalls st"
    using getConfigSnapshot_keeps_logs [OF assms(2)] runDoctorConfigFlowOnce_keeps_logs [OF assms(1)]
    by simp_all
  have a: "ensureConfigReady env params st = (Inr (), st1)" if "\<not> exists snapshot \<or> valid snapshot"
    using assms that by (auto simp: ensureConfigReady_def Let_def)
  have b: "recoveryCalls (snd (ensureConfigReady env params st)) = recoveryCalls st @ [snapshot_path snapshot]"
    if "exists snapshot \<and> \<not> valid snapshot"
    using assms that logs
    by (auto simp: ensureConfigReady_def Let_def split: prod.splits sum.splits RecoveryResult.splits)
  from a b logs show ?thesis by blast
qed

text \<open>
  C5, an instance: with a valid config file, the command \<open>agent\<close> passes the gate; the
  only change of state is the cached snapshot.
\<close>

theorem absent_or_valid_snapshot_returns_at_once_witness:
  "ensureConfigReady plain_env \<lparr>commandPath = Some [''agent'']\<rparr> (fresh_state valid_config)
     = (Inr (), (fresh_state valid_config)
          \<lparr>configSnapshotPromise :=
             Some (Inr \<lparr>snapshot_path = ''/c.json'', exists = True, valid = True, issues = [],
                        legacyIssues = []\<rparr>)\<rparr>)"
proof -
  let ?snap = "\<lparr>snapshot_path = ''/c.json'', exists = True, valid = True, issues = [],
                        legacyIssues = []\<rparr>"
  let ?st1 = "(fresh_state valid_config)\<lparr>configSnapshotPromise := Some (Inr ?snap)\<rparr>"
  have h1: "runDoctorConfigFlowOnce plain_env
              (case commandPath \<lparr>commandPath = Some [''agent'']\<rparr> of None \<Rightarrow> [] | Some cp \<Rightarrow> cp)
              (fresh_state valid_config) = (Inr (), fresh_state valid_config)"
    by (simp add: runDoctorConfigFlowOnce_def plain_env_def)
  have h2: "getConfigSnapshot plain_env (fresh_state valid_config) = (Inr ?snap, ?st1)"
    by (simp add: getConfigSnapshot_def plain_env_def fresh_state_def read_snapshot_def
                  valid_config_def brace_parse_def)
  show ?thesis
    using absent_or_valid_snapshot_returns_at_once [OF h1 h2] by simp
qed

section \<open>The write guard\<close>






text \<open>
  C8, as stated, fails. The code compares the \<open>length\<close> property of the two JSON texts,
  which counts UTF-16 code units, not bytes. A config whose one value is 168 em dashes
  serializes to 512 bytes of UTF-8 and 176 code units; replaced by the same key with an
  empty string, 8 bytes, it is below 30% of 512 bytes, and no violation fires.
\<close>

theorem em_dash_config_shrinks_unnoticed:
  "validateConfigWriteIntegrity JSON_stringify em_dashes no_dashes no_options = Safe []
   \<and> length (JSON_stringify em_dashes) = 512
   \<and> length (JSON_stringify no_dashes) = 8
   \<and> 10 * length (JSON_stringify no_dashes) < 3 * length (JSON_stringify em_dashes)
   \<and> String_length (JSON_stringify em_dashes) = 176"
proof -
  let ?cur = "[(''k'', JSString (concat (replicate 168 [CHR 0xE2, CHR 0x80, CHR 0x94])))]"
  let ?new = "[(''k'', JSString [])]"
  let ?r = "validateConfigWriteIntegrity JSON_stringify em_dashes no_dashes no_options"
  have h: "force no_options \<noteq> Some True" by (simp add: no_options_def)
  have lc: "JSObject ?cur = em_dashes" and sc: "JSObject ?new = no_dashes"
    by (simp_all only: em_dashes_def no_dashes_def)
  have "map code (violationsOf ?r) = []"
    using violation_codes [OF h, of JSON_stringify ?cur ?new]
    unfolding lc sc sizes_of_em_dashes sizes_of_no_dashes by simp
  then have v: "violationsOf ?r = []" by simp
  have w: "warningsOf ?r = []"
    using warnings_when_keys_kept [of ?cur ?new JSON_stringify no_options]
    unfolding lc sc by simp
  have "?r = Safe []"
    using result_shape [of JSON_stringify em_dashes no_dashes no_options] v w by simp
  then show ?thesis
    by (simp add: sizes_of_em_dashes sizes_of_no_dashes)
qed

text \<open>
  C8, amended. For plain objects and \<open>force\<close> not set, the excessive-size-drop violation
  is in the result if and only if the \<open>length\<close> of \<open>JSON.stringify(current)\<close>, in UTF-16
  code units, is at least 512 and the \<open>length\<close> of \<open>JSON.stringify(proposed)\<close> is strictly
  below 30% of it; below 512 code units the violation never fires, whatever the ratio.
  When both texts are ASCII, the code units are the bytes, and the same holds of the
  sizes in bytes.
\<close>

theorem excessive_size_drop_iff_large_and_below_three_tenths:
  assumes "force options \<noteq> Some True"
  shows "(excessive_size_drop
            \<in> code ` set (violationsOf (validateConfigWriteIntegrity J (JSObject cur)
                                         (JSObject new) options))
          \<longleftrightarrow> 512 \<le> String_length (J (JSObject cur))
              \<and> (of_nat (String_length (J (JSObject new))) :: rat)
                  < of_nat (String_length (J (JSObject cur))) * (3 / 10))
       \<and> ((\<forall>c\<in>set (J (JSObject cur)) \<union> set (J (JSObject new)). (of_char c :: nat) < 128) \<longrightarrow>
            (excessive_size_drop
               \<in> code ` set (violationsOf (validateConfigWriteIntegrity J (JSObject cur)
                                            (JSObject new) options))
             \<longleftrightarrow> 512 \<le> length (J (JSObject cur))
                 \<and> (of_nat (length (J (JSObject new))) :: rat)
                     < of_nat (length (J (JSObject cur))) * (3 / 10)))"
proof -
  have units: "excessive_size_drop
            \<in> code ` set (violationsOf (validateConfigWriteIntegrity J (JSObject cur)
                                         (JSObject new) options))
          \<longleftrightarrow> 512 \<le> String_length (J (JSObject cur))
              \<and> (of_nat (String_length (J (JSObject new))) :: rat)
                  < of_nat (String_length (J (JSObject cur))) * (3 / 10)"
    unfolding code_in_violations violation_codes [OF assms] by simp
  have bytes: "String_length (J (JSObject cur)) = length (J (JSObject cur))
               \<and> String_length (J (JSObject new)) = length (J (JSObject new))"
    if "\<forall>c\<in>set (J (JSObject cur)) \<union> set (J (JSObject new)). (of_char c :: nat) < 128"
    using that by (simp add: String_length_ascii)
  from units bytes show ?thesis by metis
qed

text \<open>
  C8, an instance: an ASCII config of 630 characters is replaced by one of 31.
\<close>

theorem excessive_size_drop_iff_large_and_below_three_tenths_witness:
  "excessive_size_drop
     \<in> code ` set (violationsOf (validateConfigWriteIntegrity JSON_stringify long_content
                                  short_content no_options))
   \<and> String_length (JSON_stringify long_content) = 630
   \<and> String_length (JSON_stringify short_content) = 31"
proof -
  let ?cur = "[(''agents'', JSObject []), (''longContent'', JSString (replicate 600 CHR ''x''))]"
  let ?new = "[(''agents'', JSObject []), (''longContent'', JSString ''x'')]"
  have h: "force no_options \<noteq> Some True" by (simp add: no_options_def)
  have l: "String_length (JSON_stringify long_content) = 630" by code_simp
  have s: "String_length (JSON_stringify short_content) = 31" by code_simp
  have lc: "JSObject ?cur = long_content" and sc: "JSObject ?new = short_content"
    by (simp_all only: long_content_def short_content_def)
  show ?thesis
    using excessive_size_drop_iff_large_and_below_three_tenths [OF h, of JSON_stringify ?cur ?new]
    unfolding lc sc l s by simp
qed

text \<open>
  C9. For plain objects and \<open>force\<close> not set, when every top-level key of \<open>current\<close> is a key
  of \<open>proposed\<close>, the result has no dropped-critical-keys violation, no excessive-key-loss
  violation and no warning; the only violation it can hold is excessive-size-drop.
\<close>

theorem keeping_every_key_leaves_only_size_drop:
  assumes "force options \<noteq> Some True"
    and "fst ` set cur \<subseteq> fst ` set new"
    and "r = validateConfigWriteIntegrity J (JSObject cur) (JSObject new) options"
  shows "dropped_critical_keys \<notin> code ` set (violationsOf r)
       \<and> excessive_key_loss \<notin> code ` set (violationsOf r)
       \<and> code ` set (violationsOf r) \<subseteq> {excessive_size_drop}
       \<and> warningsOf r = []"
proof -
  have int: "fst ` set cur \<inter> fst ` set new = fst ` set cur"
    using assms(2) by blast
  have none: "filter (\<lambda>key. key \<in> fst ` set cur \<and> key \<notin> fst ` set new) CRITICAL_TOP_LEVEL_KEYS = []"
    using assms(2) by (auto simp: filter_empty_conv)
  have codes: "set (map code (violationsOf r)) \<subseteq> {excessive_size_drop}"
    unfolding assms(3) violation_codes [OF assms(1)] none int by (auto split: if_splits)
  have "warningsOf r = []"
    unfolding assms(3) using assms(2) by (rule warnings_when_keys_kept)
  with codes show ?thesis by auto
qed

text \<open>
  C9, an instance, which also shows that the size drop can still block the write: both
  configs have the keys \<open>agents\<close> and \<open>longContent\<close>, and the long content shrinks.
\<close>

theorem keeping_every_key_leaves_only_size_drop_witness:
  "map code (violationsOf (validateConfigWriteIntegrity JSON_stringify long_content short_content
                              no_options)) = [excessive_size_drop]
   \<and> warningsOf (validateConfigWriteIntegrity JSON_stringify long_content short_content
                   no_options) = []"
proof -
  let ?cur = "[(''agents'', JSObject []), (''longContent'', JSString (replicate 600 CHR ''x''))]"
  let ?new = "[(''agents'', JSObject []), (''longContent'', JSString ''x'')]"
  have h: "force no_options \<noteq> Some True" by (simp add: no_options_def)
  have k: "fst ` set ?cur \<subseteq> fst ` set ?new" by simp
  have c: "map code (violationsOf (validateConfigWriteIntegrity JSON_stringify long_content
              short_content no_options)) = [excessive_size_drop]"
    by code_simp
  have lc: "JSObject ?cur = long_content" and sc: "JSObject ?new = short_content"
    by (simp_all only: long_content_def short_content_def)
  show ?thesis
    using keeping_every_key_leaves_only_size_drop [OF h k refl, of JSON_stringify] c
    unfolding lc sc by simp
qed

end
